theory Spec2Isabelle
  imports Main "HOL-Library.Sublist"
begin

section \<open>Data model (main.go, lines 13-45)\<close>

text \<open>
  Go strings are byte sequences, so a Go string is a \<open>string\<close> (a list of 8-bit
  characters) and the symbols of the service are their UTF-8 bytes. A Go \<open>error\<close> is
  modelled by the text its \<open>Error()\<close> method returns, which is what \<open>%v\<close> prints.
  Go's \<open>int\<close> is modelled by \<open>int\<close>: the program does no arithmetic on it.
\<close>

type_synonym error = string

text \<open>An element of \<open>[]any\<close>: the service never looks inside one.\<close>

typedecl any

record StatusResponse =
  State :: string
  Statuses :: "any list"
  TotalCount :: int

record Repository =
  DefaultBranch :: string

record BuildStatusResponse =
  Owner :: string
  Repository :: string
  Branch :: string
  State :: string
  Symbol :: string
  Error :: string

section \<open>The parts of net/http, io, fmt, log and encoding/json the program uses\<close>

type_synonym Header = "string \<rightharpoonup> string list"

definition Header_Set :: "Header \<Rightarrow> string \<Rightarrow> string \<Rightarrow> Header" where
  "Header_Set h key v = h(key \<mapsto> [v])"

definition Header_Del :: "Header \<Rightarrow> string \<Rightarrow> Header" where
  "Header_Del h key = h(key := None)"

definition Header_Get :: "Header \<Rightarrow> string \<Rightarrow> string" where
  "Header_Get h key = (case h key of Some (v # _) \<Rightarrow> v | _ \<Rightarrow> [])"

text \<open>\<open>url.Values\<close>: \<open>Get\<close> returns the first value of the key, or the empty string.\<close>

type_synonym Values = "string \<rightharpoonup> string list"

definition Values_Get :: "Values \<Rightarrow> string \<Rightarrow> string" where
  "Values_Get vs key = (case vs key of Some (v # _) \<Rightarrow> v | _ \<Rightarrow> [])"

text \<open>
  A parsed URL: the text it was parsed from and the values \<open>Query()\<close> returns.
\<close>

record URL =
  String :: string
  Query :: Values

record Request =
  Method :: string
  URL :: URL
  Header :: Header

text \<open>
  A response body (\<open>io.ReadCloser\<close>): the bytes \<open>io.ReadAll\<close> obtains from it, the
  error reading ends with, if any, and the error \<open>Close\<close> returns, if any.
\<close>

record ReadCloser =
  content :: string
  read_error :: "error option"
  close_error :: "error option"

definition ReadAll :: "ReadCloser \<Rightarrow> string \<times> error option" where
  "ReadAll b = (content b, read_error b)"

record Response =
  StatusCode :: int
  Body :: ReadCloser

text \<open>
  The library functions whose results the program only passes on are parameters:
  \<open>url.Parse\<close>, on which \<open>http.NewRequest\<close> fails, and the JSON decoder at the two
  struct types it is used at (an absent field leaves the zero value in the struct).
\<close>

record stdlib =
  url_Parse :: "string \<Rightarrow> error + URL"
  decode_Repository :: "ReadCloser \<Rightarrow> error + Repository"
  decode_StatusResponse :: "ReadCloser \<Rightarrow> error + StatusResponse"

text \<open>
  \<open>http.NewRequest(method, url, nil)\<close>. Its check of the method is left out: both
  calls pass the constant \<open>GET\<close>.
\<close>

definition NewRequest :: "stdlib \<Rightarrow> string \<Rightarrow> string \<Rightarrow> error + Request" where
  "NewRequest L method url =
     (case url_Parse L url of
        Inl err \<Rightarrow> Inl err
      | Inr u \<Rightarrow> Inr \<lparr>Method = method, URL = u, Header = Map.empty\<rparr>)"

text \<open>
  JSON documents, as far as the service writes them, and what a \<open>ResponseWriter\<close>
  receives: text written with \<open>fmt.Fprintln\<close> or a document written by a
  \<open>json.Encoder\<close>. A \<open>JString\<close> holds the Go string handed to the encoder; how the
  encoder escapes it in the output text is the library's and is not modelled.
\<close>

datatype json = JString string | JObject "(string \<times> json) list"

datatype chunk = Text string | Json json

text \<open>
  An \<open>http.ResponseWriter\<close>. \<open>Code\<close> starts at 200, the first \<open>WriteHeader\<close> sets it,
  later ones are ignored, and \<open>Write\<close> calls \<open>WriteHeader(200)\<close> first when no header was
  written. Two writers reach the handlers. The recorder of net/http/httptest, which the
  tests pass, records every body. The writer of the net/http server, which
  \<open>http.ListenAndServe\<close> passes when the program serves (\<open>main\<close>, lines 273-296), has
  \<open>served\<close> set: its \<open>Write\<close> sends nothing and returns \<open>ErrBodyNotAllowed\<close> when the
  status does not allow a body (1xx, 204, 304). That it also discards the body of the
  reply to a HEAD request is left out. \<open>write_error\<close> is the error \<open>Write\<close> returns in place
  of writing, for a writer that fails (the \<open>FailingResponseWriter\<close> of the tests).
\<close>

record ResponseWriter =
  HeaderMap :: Header
  Code :: int
  wroteHeader :: bool
  Written :: "chunk list"
  write_error :: "error option"
  served :: bool

definition NewRecorder :: ResponseWriter where
  "NewRecorder =
     \<lparr>HeaderMap = Map.empty, Code = 200, wroteHeader = False, Written = [], write_error = None,
      served = False\<rparr>"

definition ServerWriter :: ResponseWriter where
  "ServerWriter =
     \<lparr>HeaderMap = Map.empty, Code = 200, wroteHeader = False, Written = [], write_error = None,
      served = True\<rparr>"

definition bodyAllowedForStatus :: "int \<Rightarrow> bool" where
  "bodyAllowedForStatus status =
     (if 100 \<le> status \<and> status \<le> 199 then False
      else if status = 204 then False
      else if status = 304 then False
      else True)"

definition ErrBodyNotAllowed :: error where
  "ErrBodyNotAllowed = ''http: request method or response status code does not allow body''"

definition WriteHeader :: "ResponseWriter \<Rightarrow> int \<Rightarrow> ResponseWriter" where
  "WriteHeader w code = (if wroteHeader w then w else w\<lparr>Code := code, wroteHeader := True\<rparr>)"

definition Write :: "ResponseWriter \<Rightarrow> chunk \<Rightarrow> error option \<times> ResponseWriter" where
  "Write w c =
     (case write_error w of
        Some err \<Rightarrow> (Some err, w)
      | None \<Rightarrow>
          (let w1 = WriteHeader w 200
           in if served w1 \<and> \<not> bodyAllowedForStatus (Code w1) then (Some ErrBodyNotAllowed, w1)
              else (None, w1\<lparr>Written := Written w1 @ [c]\<rparr>)))"

text \<open>\<open>json.NewEncoder(w).Encode(v)\<close> writes the document of \<open>v\<close> in one \<open>Write\<close>.\<close>

definition Encode :: "ResponseWriter \<Rightarrow> json \<Rightarrow> error option \<times> ResponseWriter" where
  "Encode w v = Write w (Json v)"

definition Fprintln :: "ResponseWriter \<Rightarrow> string \<Rightarrow> error option \<times> ResponseWriter" where
  "Fprintln w s = Write w (Text (s @ [CHR 0x0A]))"

text \<open>\<open>http.Error\<close>: a plain-text reply with the given code.\<close>

definition http_Error :: "ResponseWriter \<Rightarrow> string \<Rightarrow> int \<Rightarrow> ResponseWriter" where
  "http_Error w err code =
     (let w = w\<lparr>HeaderMap := Header_Del (HeaderMap w) ''Content-Length''\<rparr>;
          w = w\<lparr>HeaderMap := Header_Set (HeaderMap w) ''Content-Type'' ''text/plain; charset=utf-8''\<rparr>;
          w = w\<lparr>HeaderMap := Header_Set (HeaderMap w) ''X-Content-Type-Options'' ''nosniff''\<rparr>;
          w = WriteHeader w code
      in snd (Fprintln w err))"

text \<open>The verb \<open>%d\<close> of \<open>fmt.Sprintf\<close>: an integer in decimal.\<close>

fun FormatUint :: "nat \<Rightarrow> string" where
  "FormatUint n =
     (if n < 10 then [char_of (48 + n)]
      else FormatUint (n div 10) @ [char_of (48 + n mod 10)])"

declare FormatUint.simps [simp del]

definition Itoa :: "int \<Rightarrow> string" where
  "Itoa i = (if i < 0 then CHR ''-'' # FormatUint (nat (- i)) else FormatUint (nat i))"

text \<open>
  What the decimal text of an integer is, said without the formatter, to compare
  \<open>Itoa\<close> with: one or more digits with no leading zero whose value in base ten is
  the number, after a minus sign when the number is negative.
\<close>

definition is_digit :: "char \<Rightarrow> bool" where
  "is_digit c = (48 \<le> (of_char c :: nat) \<and> (of_char c :: nat) \<le> 57)"

definition digits_value :: "string \<Rightarrow> nat" where
  "digits_value ds = foldl (\<lambda>a c. 10 * a + (of_char c - 48)) 0 ds"

definition unsigned_decimal_of :: "nat \<Rightarrow> string \<Rightarrow> bool" where
  "unsigned_decimal_of n ds =
     (ds \<noteq> [] \<and> list_all is_digit ds \<and> digits_value ds = n
      \<and> (1 < length ds \<longrightarrow> hd ds \<noteq> CHR ''0''))"

definition decimal_of :: "int \<Rightarrow> string \<Rightarrow> bool" where
  "decimal_of i str =
     (if i < 0 then str \<noteq> [] \<and> hd str = CHR ''-'' \<and> unsigned_decimal_of (nat (- i)) (tl str)
      else unsigned_decimal_of (nat i) str)"

section \<open>The state a request runs in\<close>

text \<open>
  The \<open>HTTPClient\<close> interface is one function \<open>Do\<close>, which may keep state between
  calls (the mock of the tests counts them): \<open>client\<close> is that state. \<open>calls\<close> lists
  the calls of the two service methods in order, and \<open>logs\<close> the lines given to
  \<open>log.Printf\<close>.
\<close>

datatype upstream_call =
  GetDefaultBranchCall string string
| GetCommitStatusCall string string string

record 's world =
  client :: 's
  calls :: "upstream_call list"
  logs :: "string list"

definition log_Printf :: "string \<Rightarrow> 's world \<Rightarrow> 's world" where
  "log_Printf line s = s\<lparr>logs := logs s @ [line]\<rparr>"

record 's GiteaService =
  BaseURL :: string
  Token :: string
  HTTPClient :: "Request \<Rightarrow> 's \<Rightarrow> (error + Response) \<times> 's"

text \<open>The deferred function of both service methods: close the body, log a failure.\<close>

definition close_Body :: "Response \<Rightarrow> 's world \<Rightarrow> 's world" where
  "close_Body resp s =
     (case close_error (Body resp) of
        None \<Rightarrow> s
      | Some err \<Rightarrow> log_Printf (''Error closing response body: '' @ err) s)"

section \<open>The Gitea client (main.go, lines 78-157)\<close>

definition GetDefaultBranch ::
  "stdlib \<Rightarrow> 's GiteaService \<Rightarrow> string \<Rightarrow> string \<Rightarrow> 's world \<Rightarrow> (error + string) \<times> 's world" where
  "GetDefaultBranch L g owner repo s0 =
     (let s = s0\<lparr>calls := calls s0 @ [GetDefaultBranchCall owner repo]\<rparr>;
          url = BaseURL g @ ''/api/v1/repos/'' @ owner @ ''/'' @ repo
      in case NewRequest L ''GET'' url of
           Inl err \<Rightarrow> (Inl err, s)
         | Inr req0 \<Rightarrow>
             (let req = req0\<lparr>Header := Header_Set (Header req0) ''Authorization'' (''token '' @ Token g)\<rparr>
              in case HTTPClient g req (client s) of
                   (Inl err, c) \<Rightarrow> (Inl err, s\<lparr>client := c\<rparr>)
                 | (Inr resp, c) \<Rightarrow>
                     (let s = s\<lparr>client := c\<rparr>
                      in if StatusCode resp \<noteq> 200 then
                           (let body = fst (ReadAll (Body resp))
                            in (Inl (''failed to get repository info: '' @ Itoa (StatusCode resp)
                                       @ '' - '' @ body),
                                close_Body resp s))
                         else
                           (case decode_Repository L (Body resp) of
                              Inl err \<Rightarrow> (Inl err, close_Body resp s)
                            | Inr repository \<Rightarrow> (Inr (DefaultBranch repository), close_Body resp s)))))"

definition GetCommitStatus ::
  "stdlib \<Rightarrow> 's GiteaService \<Rightarrow> string \<Rightarrow> string \<Rightarrow> string \<Rightarrow> 's world
     \<Rightarrow> (error + StatusResponse) \<times> 's world" where
  "GetCommitStatus L g owner repo branch s0 =
     (let s = s0\<lparr>calls := calls s0 @ [GetCommitStatusCall owner repo branch]\<rparr>;
          url = BaseURL g @ ''/api/v1/repos/'' @ owner @ ''/'' @ repo @ ''/commits/'' @ branch
                  @ ''/status''
      in case NewRequest L ''GET'' url of
           Inl err \<Rightarrow> (Inl err, s)
         | Inr req0 \<Rightarrow>
             (let req = req0\<lparr>Header := Header_Set (Header req0) ''Authorization'' (''token '' @ Token g)\<rparr>
              in case HTTPClient g req (client s) of
                   (Inl err, c) \<Rightarrow> (Inl err, s\<lparr>client := c\<rparr>)
                 | (Inr resp, c) \<Rightarrow>
                     (let s = s\<lparr>client := c\<rparr>
                      in if StatusCode resp = 404 then
                           (Inr \<lparr>StatusResponse.State = ''unknown'', Statuses = [], TotalCount = 0\<rparr>,
                            close_Body resp s)
                         else if StatusCode resp \<noteq> 200 then
                           (let body = fst (ReadAll (Body resp))
                            in (Inl (''failed to get commit status: '' @ Itoa (StatusCode resp)
                                       @ '' - '' @ body),
                                close_Body resp s))
                         else
                           (case decode_StatusResponse L (Body resp) of
                              Inl err \<Rightarrow> (Inl err, close_Body resp s)
                            | Inr status \<Rightarrow> (Inr status, close_Body resp s)))))"

text \<open>
  The package-level wrappers call the method on the global \<open>service\<close>, which the model
  passes as a parameter.
\<close>

definition getDefaultBranch ::
  "stdlib \<Rightarrow> 's GiteaService \<Rightarrow> string \<Rightarrow> string \<Rightarrow> 's world \<Rightarrow> (error + string) \<times> 's world" where
  "getDefaultBranch L service owner repo s = GetDefaultBranch L service owner repo s"

definition getCommitStatus ::
  "stdlib \<Rightarrow> 's GiteaService \<Rightarrow> string \<Rightarrow> string \<Rightarrow> string \<Rightarrow> 's world
     \<Rightarrow> (error + StatusResponse) \<times> 's world" where
  "getCommitStatus L service owner repo branch s = GetCommitStatus L service owner repo branch s"

section \<open>The state mapper (main.go, lines 159-191)\<close>

definition symbolMap :: "string \<rightharpoonup> string" where
  "symbolMap = map_of
     [(''success'', [CHR 0xE2, CHR 0x9C, CHR 0x93]),
      (''failure'', [CHR 0xE2, CHR 0x9C, CHR 0x97]),
      (''error'', [CHR 0xE2, CHR 0x9C, CHR 0x97]),
      (''pending'', [CHR 0xE2, CHR 0x97, CHR 0x8F]),
      (''warning'', [CHR 0xE2, CHR 0x9A, CHR 0xA0]),
      (''unknown'', [CHR 0xE2, CHR 0x97, CHR 0x8B])]"

definition mapStateToSymbol :: "string \<Rightarrow> string" where
  "mapStateToSymbol state = (case symbolMap state of Some symbol \<Rightarrow> symbol | None \<Rightarrow> ''?'')"

definition codeMap :: "string \<rightharpoonup> int" where
  "codeMap = map_of
     [(''success'', 200),
      (''failure'', 417),
      (''error'', 500),
      (''pending'', 202),
      (''warning'', 200),
      (''unknown'', 204)]"

definition mapStateToHTTPCode :: "string \<Rightarrow> int" where
  "mapStateToHTTPCode state = (case codeMap state of Some code \<Rightarrow> code | None \<Rightarrow> 200)"

section \<open>The handlers (main.go, lines 193-271)\<close>

text \<open>
  The document the encoder writes for a \<open>BuildStatusResponse\<close>, by its struct tags:
  the five fields in order, and \<open>error\<close> only when it is not empty (\<open>omitempty\<close>).
\<close>

definition json_BuildStatusResponse :: "BuildStatusResponse \<Rightarrow> json" where
  "json_BuildStatusResponse v =
     JObject ([(''owner'', JString (Owner v)),
               (''repository'', JString (Repository v)),
               (''branch'', JString (Branch v)),
               (''state'', JString (BuildStatusResponse.State v)),
               (''symbol'', JString (Symbol v))]
              @ (if Error v = [] then [] else [(''error'', JString (Error v))]))"

definition statusHandler ::
  "stdlib \<Rightarrow> 's GiteaService \<Rightarrow> ResponseWriter \<Rightarrow> Request \<Rightarrow> 's world \<Rightarrow> ResponseWriter \<times> 's world" where
  "statusHandler L service w r s =
     (if Method r \<noteq> ''GET'' then (http_Error w ''Method not allowed'' 405, s)
      else
        let owner = Values_Get (Query (URL r)) ''owner'';
            repo = Values_Get (Query (URL r)) ''repo''
        in if owner = [] \<or> repo = [] then
             (let response = \<lparr>Owner = [], Repository = [], Branch = [],
                               BuildStatusResponse.State = [], Symbol = [],
                               Error = ''Both 'owner' and 'repo' query parameters are required''\<rparr>;
                  w = w\<lparr>HeaderMap := Header_Set (HeaderMap w) ''Content-Type'' ''application/json''\<rparr>;
                  w = WriteHeader w 400
              in case Encode w (json_BuildStatusResponse response) of
                   (None, w) \<Rightarrow> (w, s)
                 | (Some err, w) \<Rightarrow> (w, log_Printf (''Error encoding JSON response: '' @ err) s))
           else
             (case getDefaultBranch L service owner repo s of
                (Inl err, s) \<Rightarrow>
                  (let response = \<lparr>Owner = owner, Repository = repo, Branch = [],
                                    BuildStatusResponse.State = [], Symbol = [],
                                    Error = ''Failed to get repository info: '' @ err\<rparr>;
                       w = w\<lparr>HeaderMap := Header_Set (HeaderMap w) ''Content-Type'' ''application/json''\<rparr>;
                       w = WriteHeader w 500
                   in case Encode w (json_BuildStatusResponse response) of
                        (None, w) \<Rightarrow> (w, s)
                      | (Some err, w) \<Rightarrow> (w, log_Printf (''Error encoding JSON response: '' @ err) s))
              | (Inr branch, s) \<Rightarrow>
                  (case getCommitStatus L service owner repo branch s of
                     (Inl err, s) \<Rightarrow>
                       (let response = \<lparr>Owner = owner, Repository = repo, Branch = branch,
                                         BuildStatusResponse.State = [], Symbol = [],
                                         Error = ''Failed to get commit status: '' @ err\<rparr>;
                            w = w\<lparr>HeaderMap := Header_Set (HeaderMap w) ''Content-Type'' ''application/json''\<rparr>;
                            w = WriteHeader w 500
                        in case Encode w (json_BuildStatusResponse response) of
                             (None, w) \<Rightarrow> (w, s)
                           | (Some err, w) \<Rightarrow> (w, log_Printf (''Error encoding JSON response: '' @ err) s))
                   | (Inr status, s) \<Rightarrow>
                       (let response = \<lparr>Owner = owner, Repository = repo, Branch = branch,
                                         BuildStatusResponse.State = StatusResponse.State status,
                                         Symbol = mapStateToSymbol (StatusResponse.State status),
                                         Error = []\<rparr>;
                            w = w\<lparr>HeaderMap := Header_Set (HeaderMap w) ''Content-Type'' ''application/json''\<rparr>;
                            w = WriteHeader w (mapStateToHTTPCode (StatusResponse.State status))
                        in case Encode w (json_BuildStatusResponse response) of
                             (None, w) \<Rightarrow> (w, s)
                           | (Some err, w) \<Rightarrow> (w, log_Printf (''Error encoding JSON response: '' @ err) s)))))"

definition healthHandler :: "ResponseWriter \<Rightarrow> Request \<Rightarrow> 's world \<Rightarrow> ResponseWriter \<times> 's world" where
  "healthHandler w r s =
     (let w = w\<lparr>HeaderMap := Header_Set (HeaderMap w) ''Content-Type'' ''application/json''\<rparr>
      in case Encode w (JObject [(''status'', JString ''ok'')]) of
           (None, w) \<Rightarrow> (w, s)
         | (Some err, w) \<Rightarrow> (w, log_Printf (''Error encoding JSON response: '' @ err) s))"

section \<open>Test doubles (main_test.go)\<close>

text \<open>
  \<open>createHTTPResponse\<close> and the mock client are those of the test file: the mock answers
  the first request with one canned result and every later request with another. The
  library stub parses every URL without a tab character and decodes the bodies the
  examples use.
\<close>

definition createHTTPResponse :: "int \<Rightarrow> string \<Rightarrow> Response" where
  "createHTTPResponse statusCode body =
     \<lparr>StatusCode = statusCode, Body = \<lparr>content = body, read_error = None, close_error = None\<rparr>\<rparr>"

definition MockDo ::
  "(error + Response) \<Rightarrow> (error + Response) \<Rightarrow> Request \<Rightarrow> nat \<Rightarrow> (error + Response) \<times> nat" where
  "MockDo first second req callCount = (if callCount = 0 then first else second, callCount + 1)"

definition quoted :: "string \<Rightarrow> string" where
  "quoted s = CHR 0x22 # s @ [CHR 0x22]"

definition main_repo_json :: string where
  "main_repo_json = ''{'' @ quoted ''default_branch'' @ '': '' @ quoted ''main'' @ ''}''"

definition success_status_json :: string where
  "success_status_json = ''{'' @ quoted ''state'' @ '': '' @ quoted ''success'' @ ''}''"

definition test_stdlib :: stdlib where
  "test_stdlib =
     \<lparr>url_Parse = (\<lambda>u. if CHR 0x09 \<in> set u then Inl ''net/url: invalid control character in URL''
                       else Inr \<lparr>String = u, Query = Map.empty\<rparr>),
      decode_Repository = (\<lambda>b.
        if content b = main_repo_json then Inr \<lparr>DefaultBranch = ''main''\<rparr>
        else if content b = ''{}'' then Inr \<lparr>DefaultBranch = []\<rparr>
        else Inl ''unexpected EOF''),
      decode_StatusResponse = (\<lambda>b.
        if content b = success_status_json
        then Inr \<lparr>StatusResponse.State = ''success'', Statuses = [], TotalCount = 0\<rparr>
        else Inl ''unexpected EOF'')\<rparr>"

definition test_service :: "(error + Response) \<Rightarrow> (error + Response) \<Rightarrow> nat GiteaService" where
  "test_service first second =
     \<lparr>BaseURL = ''https://git.example.com'', Token = ''test-token'', HTTPClient = MockDo first second\<rparr>"

definition test_world :: "nat world" where
  "test_world = \<lparr>client = 0, calls = [], logs = []\<rparr>"

definition test_request :: "string \<Rightarrow> (string \<times> string list) list \<Rightarrow> Request" where
  "test_request method query =
     \<lparr>Method = method, URL = \<lparr>String = ''/status'', Query = map_of query\<rparr>, Header = Map.empty\<rparr>"

text \<open>
  The recorder after one of the four exits of \<open>statusHandler\<close> that write a document:
  the content type, the code and the document, on a recorder that was fresh.
\<close>

definition json_reply :: "int \<Rightarrow> json \<Rightarrow> ResponseWriter" where
  "json_reply code doc =
     \<lparr>HeaderMap = [''Content-Type'' \<mapsto> [''application/json'']], Code = code, wroteHeader = True,
      Written = [Json doc], write_error = None, served = False\<rparr>"

section \<open>Properties of the state mapper\<close>

text \<open>
  C1: the two mappers are total and follow the fixed table. The six named states give
  their symbol (as UTF-8 bytes: check mark, ballot x twice, black circle, warning sign,
  white circle) and the codes 200, 417, 500, 202, 200, 204; every other string,
  the empty one included, gives the symbol \<open>?\<close> and the code 200.
\<close>

theorem C1_state_mapper_table:
  "mapStateToSymbol ''success'' = [CHR 0xE2, CHR 0x9C, CHR 0x93] \<and> mapStateToHTTPCode ''success'' = 200 \<and>
   mapStateToSymbol ''failure'' = [CHR 0xE2, CHR 0x9C, CHR 0x97] \<and> mapStateToHTTPCode ''failure'' = 417 \<and>
   mapStateToSymbol ''error'' = [CHR 0xE2, CHR 0x9C, CHR 0x97] \<and> mapStateToHTTPCode ''error'' = 500 \<and>
   mapStateToSymbol ''pending'' = [CHR 0xE2, CHR 0x97, CHR 0x8F] \<and> mapStateToHTTPCode ''pending'' = 202 \<and>
   mapStateToSymbol ''warning'' = [CHR 0xE2, CHR 0x9A, CHR 0xA0] \<and> mapStateToHTTPCode ''warning'' = 200 \<and>
   mapStateToSymbol ''unknown'' = [CHR 0xE2, CHR 0x97, CHR 0x8B] \<and> mapStateToHTTPCode ''unknown'' = 204 \<and>
   (\<forall>s. s \<notin> {''success'', ''failure'', ''error'', ''pending'', ''warning'', ''unknown''}
        \<longrightarrow> mapStateToSymbol s = ''?'' \<and> mapStateToHTTPCode s = 200)"
  by (simp add: mapStateToSymbol_def mapStateToHTTPCode_def symbolMap_def codeMap_def)

theorem C1_state_mapper_table_witness:
  "mapStateToSymbol [] = ''?'' \<and> mapStateToHTTPCode [] = 200 \<and>
   mapStateToSymbol ''Success'' = ''?'' \<and> mapStateToHTTPCode ''Success'' = 200"
  using C1_state_mapper_table by simp

section \<open>The decimal formatter\<close>

lemma digit_char:
  "d < 10 \<Longrightarrow> is_digit (char_of (48 + d)) \<and> (of_char (char_of (48 + d)) :: nat) = 48 + d"
  by (simp add: is_digit_def)

lemma FormatUint_not_empty: "FormatUint n \<noteq> []"
  by (subst FormatUint.simps) simp

lemma FormatUint_digits: "list_all is_digit (FormatUint n)"
proof (induction n rule: FormatUint.induct)
  case (1 n)
  show ?case
  proof (cases "n < 10")
    case True
    then show ?thesis
      by (subst FormatUint.simps) (simp add: digit_char)
  next
    case False
    then have "list_all is_digit (FormatUint (n div 10))"
      using "1.IH" by simp
    moreover have "is_digit (char_of (48 + n mod 10))"
      by (simp add: digit_char)
    ultimately show ?thesis
      using False by (subst FormatUint.simps) simp
  qed
qed

lemma FormatUint_value: "digits_value (FormatUint n) = n"
proof (induction n rule: FormatUint.induct)
  case (1 n)
  show ?case
  proof (cases "n < 10")
    case True
    then show ?thesis
      by (subst FormatUint.simps) (simp add: digits_value_def digit_char)
  next
    case False
    then have ih: "digits_value (FormatUint (n div 10)) = n div 10"
      using "1.IH" by simp
    have d: "(of_char (char_of (48 + n mod 10)) :: nat) = 48 + n mod 10"
      by (simp add: digit_char)
    have "digits_value (FormatUint (n div 10) @ [char_of (48 + n mod 10)])
            = 10 * digits_value (FormatUint (n div 10)) + n mod 10"
      by (simp add: digits_value_def d)
    then show ?thesis
      using False ih by (subst FormatUint.simps) simp
  qed
qed

lemma FormatUint_leading: "0 < n \<Longrightarrow> hd (FormatUint n) \<noteq> CHR ''0''"
proof (induction n rule: FormatUint.induct)
  case (1 n)
  show ?case
  proof (cases "n < 10")
    case True
    have "(of_char (char_of (48 + n)) :: nat) \<noteq> of_char CHR ''0''"
      using True "1.prems" by (simp add: digit_char)
    then have "char_of (48 + n) \<noteq> CHR ''0''"
      by metis
    then show ?thesis
      using True by (subst FormatUint.simps) simp
  next
    case False
    then have "hd (FormatUint (n div 10)) \<noteq> CHR ''0''"
      using "1.IH" by simp
    then show ?thesis
      using False by (subst FormatUint.simps) (simp add: FormatUint_not_empty)
  qed
qed

lemma FormatUint_decimal: "unsigned_decimal_of n (FormatUint n)"
proof -
  have "1 < length (FormatUint n) \<longrightarrow> hd (FormatUint n) \<noteq> CHR ''0''"
  proof (cases "n = 0")
    case True
    then show ?thesis by (subst FormatUint.simps) simp
  next
    case False
    then show ?thesis by (simp add: FormatUint_leading)
  qed
  then show ?thesis
    by (simp add: unsigned_decimal_of_def FormatUint_not_empty FormatUint_digits FormatUint_value)
qed

lemma Itoa_decimal: "decimal_of i (Itoa i)"
  by (simp add: decimal_of_def Itoa_def FormatUint_decimal)

lemma Itoa_404: "Itoa 404 = ''404''"
  by code_simp

lemma decimal_of_404: "decimal_of 404 ''404''"
  by (simp add: decimal_of_def unsigned_decimal_of_def is_digit_def digits_value_def)

lemma not_decimal_of_empty: "\<not> decimal_of i []"
  by (simp add: decimal_of_def unsigned_decimal_of_def)

section \<open>The handler, exit by exit\<close>

lemma Values_Get_empty_iff:
  "Values_Get vs key = [] \<longleftrightarrow>
     vs key = None \<or> vs key = Some [] \<or> (\<exists>rest. vs key = Some ([] # rest))"
  by (auto simp: Values_Get_def split: option.splits list.splits)

lemma mapStateToSymbol_not_empty: "mapStateToSymbol state \<noteq> []"
  by (simp add: mapStateToSymbol_def symbolMap_def)

lemma json_reply_sel:
  "Code (json_reply code doc) = code"
  "Written (json_reply code doc) = [Json doc]"
  "Header_Get (HeaderMap (json_reply code doc)) ''Content-Type'' = ''application/json''"
  by (simp_all add: json_reply_def Header_Get_def)

lemma Encode_NewRecorder:
  "Encode (WriteHeader (NewRecorder\<lparr>HeaderMap := Header_Set (HeaderMap NewRecorder) ''Content-Type'' ''application/json''\<rparr>) code) doc
     = (None, json_reply code doc)"
  by (simp add: Encode_def Write_def WriteHeader_def NewRecorder_def Header_Set_def json_reply_def)

lemma statusHandler_not_GET:
  assumes "Method r \<noteq> ''GET''"
  shows "statusHandler L g NewRecorder r s =
           (\<lparr>HeaderMap = [''Content-Type'' \<mapsto> [''text/plain; charset=utf-8''],
                          ''X-Content-Type-Options'' \<mapsto> [''nosniff'']],
             Code = 405, wroteHeader = True,
             Written = [Text (''Method not allowed'' @ [CHR 0x0A])], write_error = None,
             served = False\<rparr>, s)"
  using assms
  by (simp add: statusHandler_def http_Error_def Fprintln_def Write_def WriteHeader_def
      NewRecorder_def Header_Set_def Header_Del_def)

lemma statusHandler_validation:
  assumes "Method r = ''GET''"
    and "Values_Get (Query (URL r)) ''owner'' = [] \<or> Values_Get (Query (URL r)) ''repo'' = []"
  shows "statusHandler L g NewRecorder r s =
           (json_reply 400 (json_BuildStatusResponse
              \<lparr>Owner = [], Repository = [], Branch = [], BuildStatusResponse.State = [], Symbol = [],
               Error = ''Both 'owner' and 'repo' query parameters are required''\<rparr>), s)"
proof -
  from assms show ?thesis
    unfolding statusHandler_def Let_def
    by (simp only: Encode_NewRecorder if_True if_False not_True_eq_False refl simp_thms prod.case option.case)
qed

lemma statusHandler_branch_error:
  assumes "Method r = ''GET''"
    and "Values_Get (Query (URL r)) ''owner'' = owner" and "owner \<noteq> []"
    and "Values_Get (Query (URL r)) ''repo'' = repo" and "repo \<noteq> []"
    and "GetDefaultBranch L g owner repo s = (Inl err, s1)"
  shows "statusHandler L g NewRecorder r s =
           (json_reply 500 (json_BuildStatusResponse
              \<lparr>Owner = owner, Repository = repo, Branch = [], BuildStatusResponse.State = [], Symbol = [],
               Error = ''Failed to get repository info: '' @ err\<rparr>), s1)"
  using assms
  unfolding statusHandler_def Let_def getDefaultBranch_def
  by (simp add: Encode_NewRecorder)

lemma statusHandler_status_error:
  assumes "Method r = ''GET''"
    and "Values_Get (Query (URL r)) ''owner'' = owner" and "owner \<noteq> []"
    and "Values_Get (Query (URL r)) ''repo'' = repo" and "repo \<noteq> []"
    and "GetDefaultBranch L g owner repo s = (Inr branch, s1)"
    and "GetCommitStatus L g owner repo branch s1 = (Inl err, s2)"
  shows "statusHandler L g NewRecorder r s =
           (json_reply 500 (json_BuildStatusResponse
              \<lparr>Owner = owner, Repository = repo, Branch = branch, BuildStatusResponse.State = [], Symbol = [],
               Error = ''Failed to get commit status: '' @ err\<rparr>), s2)"
  using assms
  unfolding statusHandler_def Let_def getDefaultBranch_def getCommitStatus_def
  by (simp add: Encode_NewRecorder)

lemma statusHandler_success:
  assumes "Method r = ''GET''"
    and "Values_Get (Query (URL r)) ''owner'' = owner" and "owner \<noteq> []"
    and "Values_Get (Query (URL r)) ''repo'' = repo" and "repo \<noteq> []"
    and "GetDefaultBranch L g owner repo s = (Inr branch, s1)"
    and "GetCommitStatus L g owner repo branch s1 = (Inr status, s2)"
  shows "statusHandler L g NewRecorder r s =
           (json_reply (mapStateToHTTPCode (StatusResponse.State status)) (json_BuildStatusResponse
              \<lparr>Owner = owner, Repository = repo, Branch = branch,
               BuildStatusResponse.State = StatusResponse.State status,
               Symbol = mapStateToSymbol (StatusResponse.State status), Error = []\<rparr>), s2)"
  using assms
  unfolding statusHandler_def Let_def getDefaultBranch_def getCommitStatus_def
  by (simp add: Encode_NewRecorder)

lemma Encode_ServerWriter:
  "Encode (WriteHeader (ServerWriter\<lparr>HeaderMap := Header_Set (HeaderMap ServerWriter) ''Content-Type'' ''application/json''\<rparr>) code) doc
     = (if bodyAllowedForStatus code
        then (None, \<lparr>HeaderMap = [''Content-Type'' \<mapsto> [''application/json'']], Code = code,
                      wroteHeader = True, Written = [Json doc], write_error = None, served = True\<rparr>)
        else (Some ErrBodyNotAllowed,
              \<lparr>HeaderMap = [''Content-Type'' \<mapsto> [''application/json'']], Code = code,
               wroteHeader = True, Written = [], write_error = None, served = True\<rparr>))"
  by (simp add: Encode_def Write_def WriteHeader_def ServerWriter_def Header_Set_def)

lemma statusHandler_success_served:
  assumes "Method r = ''GET''"
    and "Values_Get (Query (URL r)) ''owner'' = owner" and "owner \<noteq> []"
    and "Values_Get (Query (URL r)) ''repo'' = repo" and "repo \<noteq> []"
    and "GetDefaultBranch L g owner repo s = (Inr branch, s1)"
    and "GetCommitStatus L g owner repo branch s1 = (Inr status, s2)"
    and "\<not> bodyAllowedForStatus (mapStateToHTTPCode (StatusResponse.State status))"
  shows "statusHandler L g ServerWriter r s =
           (\<lparr>HeaderMap = [''Content-Type'' \<mapsto> [''application/json'']],
             Code = mapStateToHTTPCode (StatusResponse.State status),
             wroteHeader = True, Written = [], write_error = None, served = True\<rparr>,
            log_Printf (''Error encoding JSON response: '' @ ErrBodyNotAllowed) s2)"
  using assms
  unfolding statusHandler_def Let_def getDefaultBranch_def getCommitStatus_def
  by (simp add: Encode_ServerWriter)

lemma statusHandler_GET_Content_Type:
  assumes "Method r = ''GET''"
  shows "Header_Get (HeaderMap (fst (statusHandler L g NewRecorder r s))) ''Content-Type''
           = ''application/json''"
proof (cases "Values_Get (Query (URL r)) ''owner'' = [] \<or> Values_Get (Query (URL r)) ''repo'' = []")
  case True
  with assms show ?thesis
    by (simp add: statusHandler_validation json_reply_sel)
next
  case False
  let ?owner = "Values_Get (Query (URL r)) ''owner''"
  let ?repo = "Values_Get (Query (URL r)) ''repo''"
  from False have ne: "?owner \<noteq> []" "?repo \<noteq> []" by simp_all
  obtain res s1 where b: "GetDefaultBranch L g ?owner ?repo s = (res, s1)"
    by (cases "GetDefaultBranch L g ?owner ?repo s")
  show ?thesis
  proof (cases res)
    case (Inl err)
    with assms ne b show ?thesis
      by (simp add: statusHandler_branch_error [where owner = ?owner and repo = ?repo] json_reply_sel)
  next
    case (Inr branch)
    obtain res2 s2 where c: "GetCommitStatus L g ?owner ?repo branch s1 = (res2, s2)"
      by (cases "GetCommitStatus L g ?owner ?repo branch s1")
    show ?thesis
    proof (cases res2)
      case (Inl err)
      with assms ne b c Inr show ?thesis
        by (simp add: statusHandler_status_error [where owner = ?owner and repo = ?repo]
            json_reply_sel)
    next
      case (Inr status)
      with assms ne b c \<open>res = Inr branch\<close> show ?thesis
        by (simp add: statusHandler_success [where owner = ?owner and repo = ?repo]
            json_reply_sel)
    qed
  qed
qed

section \<open>The client, outcome by outcome\<close>

lemma GetDefaultBranch_calls:
  "calls (snd (GetDefaultBranch L g owner repo s)) = calls s @ [GetDefaultBranchCall owner repo]"
  by (simp add: GetDefaultBranch_def Let_def close_Body_def log_Printf_def
      split: sum.splits prod.splits option.splits)

lemma GetCommitStatus_calls:
  "calls (snd (GetCommitStatus L g owner repo branch s)) =
     calls s @ [GetCommitStatusCall owner repo branch]"
  by (simp add: GetCommitStatus_def Let_def close_Body_def log_Printf_def
      split: sum.splits prod.splits option.splits)

lemma GetDefaultBranch_not_200:
  assumes "url_Parse L (BaseURL g @ ''/api/v1/repos/'' @ owner @ ''/'' @ repo) = Inr u"
    and "HTTPClient g \<lparr>Method = ''GET'', URL = u,
           Header = Header_Set Map.empty ''Authorization'' (''token '' @ Token g)\<rparr> (client s)
         = (Inr resp, c)"
    and "StatusCode resp \<noteq> 200"
  shows "GetDefaultBranch L g owner repo s =
           (Inl (''failed to get repository info: '' @ Itoa (StatusCode resp) @ '' - ''
                   @ content (Body resp)),
            close_Body resp (s\<lparr>calls := calls s @ [GetDefaultBranchCall owner repo], client := c\<rparr>))"
  using assms by (simp add: GetDefaultBranch_def NewRequest_def Let_def ReadAll_def)

lemma GetDefaultBranch_decoded:
  assumes "url_Parse L (BaseURL g @ ''/api/v1/repos/'' @ owner @ ''/'' @ repo) = Inr u"
    and "HTTPClient g \<lparr>Method = ''GET'', URL = u,
           Header = Header_Set Map.empty ''Authorization'' (''token '' @ Token g)\<rparr> (client s)
         = (Inr resp, c)"
    and "StatusCode resp = 200"
    and "decode_Repository L (Body resp) = Inr repository"
  shows "GetDefaultBranch L g owner repo s =
           (Inr (DefaultBranch repository),
            close_Body resp (s\<lparr>calls := calls s @ [GetDefaultBranchCall owner repo], client := c\<rparr>))"
  using assms by (simp add: GetDefaultBranch_def NewRequest_def Let_def)

lemma GetCommitStatus_404:
  assumes "url_Parse L (BaseURL g @ ''/api/v1/repos/'' @ owner @ ''/'' @ repo @ ''/commits/''
             @ branch @ ''/status'') = Inr u"
    and "HTTPClient g \<lparr>Method = ''GET'', URL = u,
           Header = Header_Set Map.empty ''Authorization'' (''token '' @ Token g)\<rparr> (client s)
         = (Inr resp, c)"
    and "StatusCode resp = 404"
  shows "GetCommitStatus L g owner repo branch s =
           (Inr \<lparr>StatusResponse.State = ''unknown'', Statuses = [], TotalCount = 0\<rparr>,
            close_Body resp (s\<lparr>calls := calls s @ [GetCommitStatusCall owner repo branch], client := c\<rparr>))"
  using assms by (simp add: GetCommitStatus_def NewRequest_def Let_def)

section \<open>The test doubles evaluated\<close>

lemma test_request_sel:
  "Method (test_request method query) = method"
  "Values_Get (Query (URL (test_request method query))) key =
     (case map_of query key of Some (v # _) \<Rightarrow> v | _ \<Rightarrow> [])"
  by (simp_all add: test_request_def Values_Get_def)

lemma test_url_Parse:
  "CHR 0x09 \<notin> set u \<Longrightarrow> url_Parse test_stdlib u = Inr \<lparr>String = u, Query = Map.empty\<rparr>"
  by (simp add: test_stdlib_def)

lemma test_first_call:
  "HTTPClient (test_service first second) req (client test_world) = (first, 1)"
  by (simp add: test_service_def MockDo_def test_world_def)

lemma test_second_call:
  "HTTPClient (test_service first second) req (Suc 0) = (second, 2)"
  by (simp add: test_service_def MockDo_def)

lemma test_service_sel:
  "BaseURL (test_service first second) = ''https://git.example.com''"
  "Token (test_service first second) = ''test-token''"
  by (simp_all add: test_service_def)

lemma test_decode_main:
  "decode_Repository test_stdlib (Body (createHTTPResponse 200 main_repo_json))
     = Inr \<lparr>DefaultBranch = ''main''\<rparr>"
  by (simp add: test_stdlib_def createHTTPResponse_def)

lemma test_decode_empty:
  "decode_Repository test_stdlib (Body (createHTTPResponse 200 ''{}''))
     = Inr \<lparr>DefaultBranch = []\<rparr>"
  by (simp add: test_stdlib_def createHTTPResponse_def main_repo_json_def quoted_def)

lemma test_GetDefaultBranch_200:
  assumes "decode_Repository test_stdlib (Body (createHTTPResponse 200 body)) = Inr repository"
  shows "GetDefaultBranch test_stdlib (test_service (Inr (createHTTPResponse 200 body)) second)
           ''testowner'' ''testrepo'' test_world
         = (Inr (DefaultBranch repository),
            \<lparr>client = 1, calls = [GetDefaultBranchCall ''testowner'' ''testrepo''], logs = []\<rparr>)"
proof -
  let ?g = "test_service (Inr (createHTTPResponse 200 body)) second"
  have u: "url_Parse test_stdlib (BaseURL ?g @ ''/api/v1/repos/'' @ ''testowner'' @ ''/'' @ ''testrepo'')
           = Inr \<lparr>String = BaseURL ?g @ ''/api/v1/repos/'' @ ''testowner'' @ ''/'' @ ''testrepo'',
                  Query = Map.empty\<rparr>"
    by (rule test_url_Parse) (simp add: test_service_sel)
  have c: "StatusCode (createHTTPResponse 200 body) = 200"
    by (simp add: createHTTPResponse_def)
  show ?thesis
    unfolding GetDefaultBranch_decoded [OF u test_first_call c assms]
    by (simp add: close_Body_def createHTTPResponse_def test_world_def)
qed

section \<open>Properties of the client and the handlers\<close>

text \<open>
  On the recorder of the tests: when the repository lookup returns the branch
  \<open>main\<close> and the status request is answered with 404, the recorder holds the code
  204 and the document with state \<open>unknown\<close>, the white circle and no error field.
\<close>

lemma statusHandler_unknown_on_recorder:
  assumes "Method r = ''GET''"
    and "Values_Get (Query (URL r)) ''owner'' = owner" and "owner \<noteq> []"
    and "Values_Get (Query (URL r)) ''repo'' = repo" and "repo \<noteq> []"
    and "GetDefaultBranch L g owner repo s = (Inr ''main'', s1)"
    and "url_Parse L (BaseURL g @ ''/api/v1/repos/'' @ owner @ ''/'' @ repo @ ''/commits/''
           @ ''main'' @ ''/status'') = Inr u"
    and "HTTPClient g \<lparr>Method = ''GET'', URL = u,
           Header = Header_Set Map.empty ''Authorization'' (''token '' @ Token g)\<rparr> (client s1)
         = (Inr resp, c)"
    and "StatusCode resp = 404"
  shows "Code (fst (statusHandler L g NewRecorder r s)) = 204
       \<and> Written (fst (statusHandler L g NewRecorder r s)) =
           [Json (JObject [(''owner'', JString owner), (''repository'', JString repo),
                           (''branch'', JString ''main''), (''state'', JString ''unknown''),
                           (''symbol'', JString [CHR 0xE2, CHR 0x97, CHR 0x8B])])]"
proof -
  note st = GetCommitStatus_404 [OF assms(7) assms(8) assms(9)]
  note h = statusHandler_success [OF assms(1) assms(2) assms(3) assms(4) assms(5) assms(6) st]
  show ?thesis
    by (simp add: h json_reply_sel json_BuildStatusResponse_def mapStateToHTTPCode_def codeMap_def
        mapStateToSymbol_def symbolMap_def)
qed

text \<open>
  C2: the same request when the program serves. The handler sets the code 204 and then
  encodes the document, but a reply with status 204 has no body: the served reply has
  the code 204 and nothing written, and the handler logs the error the encoder returns.
  So the body that C2 describes is not sent.
\<close>

theorem C2_served_unknown_status_reply:
  assumes "Method r = ''GET''"
    and "Values_Get (Query (URL r)) ''owner'' = owner" and "owner \<noteq> []"
    and "Values_Get (Query (URL r)) ''repo'' = repo" and "repo \<noteq> []"
    and "GetDefaultBranch L g owner repo s = (Inr ''main'', s1)"
    and "url_Parse L (BaseURL g @ ''/api/v1/repos/'' @ owner @ ''/'' @ repo @ ''/commits/''
           @ ''main'' @ ''/status'') = Inr u"
    and "HTTPClient g \<lparr>Method = ''GET'', URL = u,
           Header = Header_Set Map.empty ''Authorization'' (''token '' @ Token g)\<rparr> (client s1)
         = (Inr resp, c)"
    and "StatusCode resp = 404"
  shows "Code (fst (statusHandler L g ServerWriter r s)) = 204
       \<and> Written (fst (statusHandler L g ServerWriter r s)) = []
       \<and> logs (snd (statusHandler L g ServerWriter r s)) =
           logs (snd (GetCommitStatus L g owner repo ''main'' s1))
             @ [''Error encoding JSON response: '' @ ErrBodyNotAllowed]"
proof -
  note st = GetCommitStatus_404 [OF assms(7) assms(8) assms(9)]
  have na: "\<not> bodyAllowedForStatus (mapStateToHTTPCode (StatusResponse.State
              \<lparr>StatusResponse.State = ''unknown'', Statuses = [], TotalCount = 0\<rparr>))"
    by (simp add: mapStateToHTTPCode_def codeMap_def bodyAllowedForStatus_def)
  note h = statusHandler_success_served [OF assms(1) assms(2) assms(3) assms(4) assms(5) assms(6) st na]
  show ?thesis
    unfolding h st
    by (simp add: mapStateToHTTPCode_def codeMap_def log_Printf_def)
qed

theorem C2_served_unknown_status_reply_witness:
  "Code (fst (statusHandler test_stdlib
      (test_service (Inr (createHTTPResponse 200 main_repo_json)) (Inr (createHTTPResponse 404 [])))
      ServerWriter (test_request ''GET'' [(''owner'', [''testowner'']), (''repo'', [''testrepo''])])
      test_world)) = 204
   \<and> Written (fst (statusHandler test_stdlib
      (test_service (Inr (createHTTPResponse 200 main_repo_json)) (Inr (createHTTPResponse 404 [])))
      ServerWriter (test_request ''GET'' [(''owner'', [''testowner'']), (''repo'', [''testrepo''])])
      test_world)) = []
   \<and> logs (snd (statusHandler test_stdlib
      (test_service (Inr (createHTTPResponse 200 main_repo_json)) (Inr (createHTTPResponse 404 [])))
      ServerWriter (test_request ''GET'' [(''owner'', [''testowner'']), (''repo'', [''testrepo''])])
      test_world)) =
       [''Error encoding JSON response: http: request method or response status code does not allow body'']"
proof -
  let ?g = "test_service (Inr (createHTTPResponse 200 main_repo_json)) (Inr (createHTTPResponse 404 []))"
  let ?r = "test_request ''GET'' [(''owner'', [''testowner'']), (''repo'', [''testrepo''])]"
  let ?s1 = "\<lparr>client = 1::nat, calls = [GetDefaultBranchCall ''testowner'' ''testrepo''], logs = []\<rparr>"
  have m: "Method ?r = ''GET''" by (simp add: test_request_sel)
  have o: "Values_Get (Query (URL ?r)) ''owner'' = ''testowner''" by (simp add: test_request_sel)
  have p: "Values_Get (Query (URL ?r)) ''repo'' = ''testrepo''" by (simp add: test_request_sel)
  have one: "''testowner'' \<noteq> []" by simp
  have pne: "''testrepo'' \<noteq> []" by simp
  have b: "GetDefaultBranch test_stdlib ?g ''testowner'' ''testrepo'' test_world = (Inr ''main'', ?s1)"
    using test_GetDefaultBranch_200 [OF test_decode_main] by simp
  have u: "url_Parse test_stdlib (BaseURL ?g @ ''/api/v1/repos/'' @ ''testowner'' @ ''/'' @ ''testrepo''
             @ ''/commits/'' @ ''main'' @ ''/status'')
           = Inr \<lparr>String = BaseURL ?g @ ''/api/v1/repos/'' @ ''testowner'' @ ''/'' @ ''testrepo''
                    @ ''/commits/'' @ ''main'' @ ''/status'', Query = Map.empty\<rparr>"
    by (rule test_url_Parse) (simp add: test_service_sel)
  have d: "HTTPClient ?g \<lparr>Method = ''GET'',
             URL = \<lparr>String = BaseURL ?g @ ''/api/v1/repos/'' @ ''testowner'' @ ''/'' @ ''testrepo''
                    @ ''/commits/'' @ ''main'' @ ''/status'', Query = Map.empty\<rparr>,
             Header = Header_Set Map.empty ''Authorization'' (''token '' @ Token ?g)\<rparr>
             (client ?s1)
           = (Inr (createHTTPResponse 404 []), 2)"
    using test_second_call by simp
  have c: "StatusCode (createHTTPResponse 404 []) = 404"
    by (simp add: createHTTPResponse_def)
  have l: "logs (snd (GetCommitStatus test_stdlib ?g ''testowner'' ''testrepo'' ''main'' ?s1)) = []"
    unfolding GetCommitStatus_404 [OF u d c]
    by (simp add: close_Body_def createHTTPResponse_def)
  from C2_served_unknown_status_reply [OF m o one p pne b u d c] l show ?thesis
    by (simp add: ErrBodyNotAllowed_def)
qed

text \<open>
  C3: a GET request whose \<open>owner\<close> or \<open>repo\<close> value is empty (absent, without values,
  or with an empty first value, see \<open>Values_Get_empty_iff\<close>) gets the code 400 and the
  fixed message in the error field; the state is unchanged, so no service method was
  called and the client was not used.
\<close>

theorem C3_missing_parameter:
  assumes "Method r = ''GET''"
    and "Values_Get (Query (URL r)) ''owner'' = [] \<or> Values_Get (Query (URL r)) ''repo'' = []"
  shows "Code (fst (statusHandler L g NewRecorder r s)) = 400
       \<and> Written (fst (statusHandler L g NewRecorder r s)) =
           [Json (JObject [(''owner'', JString []), (''repository'', JString []),
                           (''branch'', JString []), (''state'', JString []),
                           (''symbol'', JString []),
                           (''error'', JString ''Both 'owner' and 'repo' query parameters are required'')])]
       \<and> snd (statusHandler L g NewRecorder r s) = s"
  by (simp add: statusHandler_validation [OF assms] json_reply_sel json_BuildStatusResponse_def)

theorem C3_missing_parameter_witness:
  "Code (fst (statusHandler test_stdlib (test_service (Inl ''unused'') (Inl ''unused'')) NewRecorder
      (test_request ''GET'' [(''owner'', [''testowner''])]) test_world)) = 400
   \<and> snd (statusHandler test_stdlib (test_service (Inl ''unused'') (Inl ''unused'')) NewRecorder
      (test_request ''GET'' [(''owner'', [''testowner''])]) test_world) = test_world
   \<and> Code (fst (statusHandler test_stdlib (test_service (Inl ''unused'') (Inl ''unused'')) NewRecorder
      (test_request ''GET'' [(''owner'', ['''']), (''repo'', [''testrepo''])]) test_world)) = 400"
proof -
  have a: "Method (test_request ''GET'' [(''owner'', [''testowner''])]) = ''GET''"
    by (simp add: test_request_sel)
  have b: "Values_Get (Query (URL (test_request ''GET'' [(''owner'', [''testowner''])]))) ''owner'' = []
         \<or> Values_Get (Query (URL (test_request ''GET'' [(''owner'', [''testowner''])]))) ''repo'' = []"
    by (simp add: test_request_sel)
  have a': "Method (test_request ''GET'' [(''owner'', ['''']), (''repo'', [''testrepo''])]) = ''GET''"
    by (simp add: test_request_sel)
  have b': "Values_Get (Query (URL (test_request ''GET'' [(''owner'', ['''']), (''repo'', [''testrepo''])]))) ''owner'' = []
         \<or> Values_Get (Query (URL (test_request ''GET'' [(''owner'', ['''']), (''repo'', [''testrepo''])]))) ''repo'' = []"
    by (simp add: test_request_sel)
  let ?g = "test_service (Inl ''unused'') (Inl ''unused'')"
  from C3_missing_parameter [where L = test_stdlib and g = ?g and s = test_world, OF a b]
    C3_missing_parameter [where L = test_stdlib and g = ?g and s = test_world, OF a' b']
  show ?thesis
    by simp
qed

text \<open>
  C4, as stated: every reply of \<open>statusHandler\<close>, the method-not-allowed one included,
  has the content type \<open>application/json\<close>. The reply to a POST request does not:
  \<open>http.Error\<close> sets \<open>text/plain; charset=utf-8\<close>.
\<close>

theorem C4_content_type_counterexample:
  "Header_Get (HeaderMap (fst (statusHandler test_stdlib (test_service (Inl ''unused'') (Inl ''unused''))
      NewRecorder (test_request ''POST'' [(''owner'', [''testowner'']), (''repo'', [''testrepo''])])
      test_world))) ''Content-Type'' \<noteq> ''application/json''"
  by (simp add: statusHandler_not_GET test_request_def Header_Get_def)

text \<open>
  C4, amended: every reply to a GET request (the 400 exit, the two 500 exits and the
  success exit) has the content type \<open>application/json\<close>; the reply to any other
  method has the content type \<open>text/plain; charset=utf-8\<close>.
\<close>

theorem C4_content_type_by_method:
  "(Method r = ''GET'' \<longrightarrow>
      Header_Get (HeaderMap (fst (statusHandler L g NewRecorder r s))) ''Content-Type''
        = ''application/json'')
   \<and> (Method r \<noteq> ''GET'' \<longrightarrow>
      Header_Get (HeaderMap (fst (statusHandler L g NewRecorder r s))) ''Content-Type''
        = ''text/plain; charset=utf-8'')"
proof (intro conjI impI)
  assume "Method r = ''GET''"
  then show "Header_Get (HeaderMap (fst (statusHandler L g NewRecorder r s))) ''Content-Type''
               = ''application/json''"
    by (rule statusHandler_GET_Content_Type)
next
  assume "Method r \<noteq> ''GET''"
  then show "Header_Get (HeaderMap (fst (statusHandler L g NewRecorder r s))) ''Content-Type''
               = ''text/plain; charset=utf-8''"
    by (simp add: statusHandler_not_GET Header_Get_def)
qed

theorem C4_content_type_by_method_witness:
  "Header_Get (HeaderMap (fst (statusHandler test_stdlib (test_service (Inl ''unused'') (Inl ''unused''))
      NewRecorder (test_request ''GET'' []) test_world))) ''Content-Type'' = ''application/json''
   \<and> Header_Get (HeaderMap (fst (statusHandler test_stdlib (test_service (Inl ''unused'') (Inl ''unused''))
      NewRecorder (test_request ''DELETE'' []) test_world))) ''Content-Type''
       = ''text/plain; charset=utf-8''"
proof -
  have a: "Method (test_request ''GET'' []) = ''GET''"
    by (simp add: test_request_sel)
  have b: "Method (test_request ''DELETE'' []) \<noteq> ''GET''"
    by (simp add: test_request_sel)
  let ?g = "test_service (Inl ''unused'') (Inl ''unused'')"
  from C4_content_type_by_method [of "test_request ''GET'' []" test_stdlib ?g test_world] a
    C4_content_type_by_method [of "test_request ''DELETE'' []" test_stdlib ?g test_world] b
  show ?thesis
    by blast
qed

text \<open>
  C5: when the status request is answered with 404, \<open>GetCommitStatus\<close> returns the
  result with state \<open>unknown\<close>, no statuses and count 0, and the outcome is the same
  whatever the decoder would do with the body: the body is not decoded.
\<close>

theorem C5_not_found_is_unknown:
  assumes "url_Parse L (BaseURL g @ ''/api/v1/repos/'' @ owner @ ''/'' @ repo @ ''/commits/''
             @ branch @ ''/status'') = Inr u"
    and "HTTPClient g \<lparr>Method = ''GET'', URL = u,
           Header = Header_Set Map.empty ''Authorization'' (''token '' @ Token g)\<rparr> (client s)
         = (Inr resp, c)"
    and "StatusCode resp = 404"
  shows "fst (GetCommitStatus L g owner repo branch s) =
           Inr \<lparr>StatusResponse.State = ''unknown'', Statuses = [], TotalCount = 0\<rparr>
         \<and> (\<forall>d. GetCommitStatus (L\<lparr>decode_StatusResponse := d\<rparr>) g owner repo branch s =
                  GetCommitStatus L g owner repo branch s)"
proof -
  have "GetCommitStatus (L\<lparr>decode_StatusResponse := d\<rparr>) g owner repo branch s =
          GetCommitStatus L g owner repo branch s" for d
    using assms by (simp add: GetCommitStatus_404 [where u = u and resp = resp and c = c])
  then show ?thesis
    using assms by (simp add: GetCommitStatus_404 [where u = u and resp = resp and c = c])
qed

theorem C5_not_found_is_unknown_witness:
  "fst (GetCommitStatus test_stdlib
          (test_service (Inl ''unused'') (Inr (createHTTPResponse 404 ''not json at all'')))
          ''testowner'' ''testrepo'' ''main'' (test_world\<lparr>client := 1\<rparr>))
     = Inr \<lparr>StatusResponse.State = ''unknown'', Statuses = [], TotalCount = 0\<rparr>"
proof -
  let ?g = "test_service (Inl ''unused'') (Inr (createHTTPResponse 404 ''not json at all''))"
  have u: "url_Parse test_stdlib (BaseURL ?g @ ''/api/v1/repos/'' @ ''testowner'' @ ''/'' @ ''testrepo''
             @ ''/commits/'' @ ''main'' @ ''/status'')
           = Inr \<lparr>String = ''https://git.example.com/api/v1/repos/testowner/testrepo/commits/main/status'',
                  Query = Map.empty\<rparr>"
    by (simp add: test_stdlib_def test_service_def)
  have d: "HTTPClient ?g \<lparr>Method = ''GET'',
             URL = \<lparr>String = ''https://git.example.com/api/v1/repos/testowner/testrepo/commits/main/status'',
                    Query = Map.empty\<rparr>,
             Header = Header_Set Map.empty ''Authorization'' (''token '' @ Token ?g)\<rparr>
             (client (test_world\<lparr>client := 1\<rparr>))
           = (Inr (createHTTPResponse 404 ''not json at all''), 2)"
    by (simp add: test_service_def MockDo_def test_world_def)
  have c: "StatusCode (createHTTPResponse 404 ''not json at all'') = 404"
    by (simp add: createHTTPResponse_def)
  from C5_not_found_is_unknown [OF u d c] show ?thesis by simp
qed

text \<open>
  C6: a GET request with both parameters whose repository request is answered with a
  status other than 200 gets the code 500 and the document with owner and repository
  from the request, empty branch, state and symbol, and an error text that contains
  the text \<open>Itoa\<close> gives for the upstream status, which is its decimal text (so the error
  is not empty).
\<close>

theorem C6_repository_info_failure:
  assumes "Method r = ''GET''"
    and "Values_Get (Query (URL r)) ''owner'' = owner" and "owner \<noteq> []"
    and "Values_Get (Query (URL r)) ''repo'' = repo" and "repo \<noteq> []"
    and "url_Parse L (BaseURL g @ ''/api/v1/repos/'' @ owner @ ''/'' @ repo) = Inr u"
    and "HTTPClient g \<lparr>Method = ''GET'', URL = u,
           Header = Header_Set Map.empty ''Authorization'' (''token '' @ Token g)\<rparr> (client s)
         = (Inr resp, c)"
    and "StatusCode resp \<noteq> 200"
  shows "Code (fst (statusHandler L g NewRecorder r s)) = 500
       \<and> Written (fst (statusHandler L g NewRecorder r s)) =
           [Json (JObject [(''owner'', JString owner), (''repository'', JString repo),
                           (''branch'', JString []), (''state'', JString []),
                           (''symbol'', JString []),
                           (''error'', JString (''Failed to get repository info: ''
                              @ ''failed to get repository info: '' @ Itoa (StatusCode resp)
                              @ '' - '' @ content (Body resp)))])]
       \<and> sublist (Itoa (StatusCode resp))
            (''Failed to get repository info: '' @ ''failed to get repository info: ''
               @ Itoa (StatusCode resp) @ '' - '' @ content (Body resp))
       \<and> decimal_of (StatusCode resp) (Itoa (StatusCode resp))"
proof -
  note b = GetDefaultBranch_not_200 [OF assms(6) assms(7) assms(8)]
  note h = statusHandler_branch_error [OF assms(1) assms(2) assms(3) assms(4) assms(5) b]
  have "sublist (Itoa (StatusCode resp))
          ((''Failed to get repository info: '' @ ''failed to get repository info: '')
             @ Itoa (StatusCode resp) @ ('' - '' @ content (Body resp)))"
    by (rule sublist_appendI)
  then show ?thesis
    by (simp add: h json_reply_sel json_BuildStatusResponse_def Itoa_decimal)
qed

theorem C6_repository_info_failure_witness:
  "Code (fst (statusHandler test_stdlib
      (test_service (Inr (createHTTPResponse 404 ''Repository not found'')) (Inl ''unused''))
      NewRecorder (test_request ''GET'' [(''owner'', [''testowner'']), (''repo'', [''nonexistent''])])
      test_world)) = 500
   \<and> Written (fst (statusHandler test_stdlib
      (test_service (Inr (createHTTPResponse 404 ''Repository not found'')) (Inl ''unused''))
      NewRecorder (test_request ''GET'' [(''owner'', [''testowner'']), (''repo'', [''nonexistent''])])
      test_world)) =
       [Json (JObject [(''owner'', JString ''testowner''), (''repository'', JString ''nonexistent''),
                       (''branch'', JString []), (''state'', JString []), (''symbol'', JString []),
                       (''error'', JString ''Failed to get repository info: failed to get repository info: 404 - Repository not found'')])]
   \<and> sublist ''404''
        ''Failed to get repository info: failed to get repository info: 404 - Repository not found''
   \<and> decimal_of 404 ''404''"
proof -
  let ?g = "test_service (Inr (createHTTPResponse 404 ''Repository not found'')) (Inl ''unused'')"
  let ?r = "test_request ''GET'' [(''owner'', [''testowner'']), (''repo'', [''nonexistent''])]"
  have m: "Method ?r = ''GET''" by (simp add: test_request_sel)
  have o: "Values_Get (Query (URL ?r)) ''owner'' = ''testowner''" by (simp add: test_request_sel)
  have p: "Values_Get (Query (URL ?r)) ''repo'' = ''nonexistent''" by (simp add: test_request_sel)
  have one: "''testowner'' \<noteq> []" by simp
  have pne: "''nonexistent'' \<noteq> []" by simp
  have u: "url_Parse test_stdlib (BaseURL ?g @ ''/api/v1/repos/'' @ ''testowner'' @ ''/'' @ ''nonexistent'')
           = Inr \<lparr>String = BaseURL ?g @ ''/api/v1/repos/'' @ ''testowner'' @ ''/'' @ ''nonexistent'',
                  Query = Map.empty\<rparr>"
    by (rule test_url_Parse) (simp add: test_service_sel)
  have d: "HTTPClient ?g \<lparr>Method = ''GET'',
             URL = \<lparr>String = BaseURL ?g @ ''/api/v1/repos/'' @ ''testowner'' @ ''/'' @ ''nonexistent'',
                    Query = Map.empty\<rparr>,
             Header = Header_Set Map.empty ''Authorization'' (''token '' @ Token ?g)\<rparr>
             (client test_world)
           = (Inr (createHTTPResponse 404 ''Repository not found''), 1)"
    by (rule test_first_call)
  have c: "StatusCode (createHTTPResponse 404 ''Repository not found'') \<noteq> 200"
    by (simp add: createHTTPResponse_def)
  from C6_repository_info_failure [OF m o one p pne u d c] show ?thesis
    by (simp add: createHTTPResponse_def Itoa_404)
qed

text \<open>
  C7: a request with a method other than GET gets the code 405 and the text
  \<open>Method not allowed\<close>; the state is unchanged (no service method called, client not
  used), and the reply is the same whatever the URL and its query are.
\<close>

theorem C7_method_not_allowed:
  assumes "Method r \<noteq> ''GET''"
  shows "Code (fst (statusHandler L g NewRecorder r s)) = 405
       \<and> Written (fst (statusHandler L g NewRecorder r s)) = [Text (''Method not allowed'' @ [CHR 0x0A])]
       \<and> snd (statusHandler L g NewRecorder r s) = s
       \<and> (\<forall>u. statusHandler L g NewRecorder (r\<lparr>URL := u\<rparr>) s = statusHandler L g NewRecorder r s)"
proof -
  have "Method (r\<lparr>URL := u\<rparr>) \<noteq> ''GET''" for u
    using assms by simp
  then show ?thesis
    using assms by (simp add: statusHandler_not_GET)
qed

theorem C7_method_not_allowed_witness:
  "Code (fst (statusHandler test_stdlib (test_service (Inl ''unused'') (Inl ''unused'')) NewRecorder
      (test_request ''POST'' []) test_world)) = 405
   \<and> snd (statusHandler test_stdlib (test_service (Inl ''unused'') (Inl ''unused'')) NewRecorder
      (test_request ''POST'' []) test_world) = test_world"
proof -
  have a: "Method (test_request ''POST'' []) \<noteq> ''GET''"
    by (simp add: test_request_sel)
  from C7_method_not_allowed [where L = test_stdlib and s = test_world
      and g = "test_service (Inl ''unused'') (Inl ''unused'')", OF a]
  show ?thesis
    by simp
qed

text \<open>
  C8, as stated: every document is either a success body with owner, repository,
  branch, state and symbol populated and no error field, or an error body with an
  error field. When the repository document has no default branch and the status
  request is answered with 404, the document has no error field and an empty branch.
\<close>

theorem C8_body_shapes_counterexample:
  "Written (fst (statusHandler test_stdlib
      (test_service (Inr (createHTTPResponse 200 ''{}'')) (Inr (createHTTPResponse 404 [])))
      NewRecorder (test_request ''GET'' [(''owner'', [''testowner'']), (''repo'', [''testrepo''])])
      test_world)) =
       [Json (JObject [(''owner'', JString ''testowner''), (''repository'', JString ''testrepo''),
                       (''branch'', JString []), (''state'', JString ''unknown''),
                       (''symbol'', JString [CHR 0xE2, CHR 0x97, CHR 0x8B])])]"
proof -
  let ?g = "test_service (Inr (createHTTPResponse 200 ''{}'')) (Inr (createHTTPResponse 404 []))"
  let ?r = "test_request ''GET'' [(''owner'', [''testowner'']), (''repo'', [''testrepo''])]"
  let ?s1 = "\<lparr>client = 1::nat, calls = [GetDefaultBranchCall ''testowner'' ''testrepo''], logs = []\<rparr>"
  have m: "Method ?r = ''GET''" by (simp add: test_request_sel)
  have o: "Values_Get (Query (URL ?r)) ''owner'' = ''testowner''" by (simp add: test_request_sel)
  have p: "Values_Get (Query (URL ?r)) ''repo'' = ''testrepo''" by (simp add: test_request_sel)
  have one: "''testowner'' \<noteq> []" by simp
  have pne: "''testrepo'' \<noteq> []" by simp
  have b: "GetDefaultBranch test_stdlib ?g ''testowner'' ''testrepo'' test_world = (Inr [], ?s1)"
    using test_GetDefaultBranch_200 [OF test_decode_empty] by simp
  have u: "url_Parse test_stdlib (BaseURL ?g @ ''/api/v1/repos/'' @ ''testowner'' @ ''/'' @ ''testrepo''
             @ ''/commits/'' @ [] @ ''/status'')
           = Inr \<lparr>String = BaseURL ?g @ ''/api/v1/repos/'' @ ''testowner'' @ ''/'' @ ''testrepo''
                    @ ''/commits/'' @ [] @ ''/status'', Query = Map.empty\<rparr>"
    by (rule test_url_Parse) (simp add: test_service_sel)
  have d: "HTTPClient ?g \<lparr>Method = ''GET'',
             URL = \<lparr>String = BaseURL ?g @ ''/api/v1/repos/'' @ ''testowner'' @ ''/'' @ ''testrepo''
                    @ ''/commits/'' @ [] @ ''/status'', Query = Map.empty\<rparr>,
             Header = Header_Set Map.empty ''Authorization'' (''token '' @ Token ?g)\<rparr>
             (client ?s1)
           = (Inr (createHTTPResponse 404 []), 2)"
    using test_second_call by simp
  have c: "StatusCode (createHTTPResponse 404 []) = 404"
    by (simp add: createHTTPResponse_def)
  note st = GetCommitStatus_404 [OF u d c]
  note h = statusHandler_success [OF m o one p pne b st]
  show ?thesis
    by (simp add: h json_reply_sel json_BuildStatusResponse_def mapStateToSymbol_def symbolMap_def)
qed

text \<open>
  C8, amended: every document written for a GET request has exactly one of two
  shapes. Success: no error field, owner and repository equal to the request's non-empty
  values, branch and state as the two lookups returned them (either may be empty), and
  the symbol of that state, which is never empty. Error: an error field, empty state and
  symbol, and either all of owner, repository and branch empty (validation), or owner
  and repository set and branch empty (the branch lookup failed), or owner, repository
  and the resolved branch set (the status lookup failed).
\<close>

theorem C8_body_shapes:
  assumes "Method r = ''GET''"
    and "Values_Get (Query (URL r)) ''owner'' = owner"
    and "Values_Get (Query (URL r)) ''repo'' = repo"
  shows "\<exists>v. Written (fst (statusHandler L g NewRecorder r s)) = [Json (json_BuildStatusResponse v)]
     \<and> ((Error v = [] \<and> Owner v = owner \<and> owner \<noteq> [] \<and> Repository v = repo \<and> repo \<noteq> []
            \<and> Symbol v = mapStateToSymbol (BuildStatusResponse.State v) \<and> Symbol v \<noteq> []
            \<and> (\<exists>s1 status s2.
                  GetDefaultBranch L g owner repo s = (Inr (Branch v), s1)
                  \<and> GetCommitStatus L g owner repo (Branch v) s1 = (Inr status, s2)
                  \<and> BuildStatusResponse.State v = StatusResponse.State status))
         \<noteq>
         (Error v \<noteq> [] \<and> BuildStatusResponse.State v = [] \<and> Symbol v = []
            \<and> ((owner = [] \<or> repo = []) \<and> Owner v = [] \<and> Repository v = [] \<and> Branch v = []
               \<or> Owner v = owner \<and> Repository v = repo \<and> Branch v = []
                  \<and> (\<exists>err s1. GetDefaultBranch L g owner repo s = (Inl err, s1))
               \<or> Owner v = owner \<and> Repository v = repo
                  \<and> (\<exists>s1 err s2.
                        GetDefaultBranch L g owner repo s = (Inr (Branch v), s1)
                        \<and> GetCommitStatus L g owner repo (Branch v) s1 = (Inl err, s2)))))"
proof (cases "owner = [] \<or> repo = []")
  case True
  then have e: "Values_Get (Query (URL r)) ''owner'' = [] \<or> Values_Get (Query (URL r)) ''repo'' = []"
    using assms by simp
  show ?thesis
    apply (rule exI [of _ "\<lparr>Owner = [], Repository = [], Branch = [],
              BuildStatusResponse.State = [], Symbol = [],
              Error = ''Both 'owner' and 'repo' query parameters are required''\<rparr>"])
    using True by (simp add: statusHandler_validation [OF assms(1) e] json_reply_sel)
next
  case False
  then have ne: "owner \<noteq> []" "repo \<noteq> []" by simp_all
  obtain res s1 where b: "GetDefaultBranch L g owner repo s = (res, s1)"
    by (cases "GetDefaultBranch L g owner repo s")
  show ?thesis
  proof (cases res)
    case (Inl err)
    note h = statusHandler_branch_error [OF assms(1) assms(2) ne(1) assms(3) ne(2) b [unfolded Inl]]
    show ?thesis
      apply (rule exI [of _ "\<lparr>Owner = owner, Repository = repo, Branch = [],
                BuildStatusResponse.State = [], Symbol = [],
                Error = ''Failed to get repository info: '' @ err\<rparr>"])
      using b Inl by (simp add: h json_reply_sel)
  next
    case (Inr branch)
    obtain res2 s2 where st: "GetCommitStatus L g owner repo branch s1 = (res2, s2)"
      by (cases "GetCommitStatus L g owner repo branch s1")
    show ?thesis
    proof (cases res2)
      case (Inl err)
      note h = statusHandler_status_error [OF assms(1) assms(2) ne(1) assms(3) ne(2)
          b [unfolded Inr] st [unfolded Inl]]
      show ?thesis
        apply (rule exI [of _ "\<lparr>Owner = owner, Repository = repo, Branch = branch,
                  BuildStatusResponse.State = [], Symbol = [],
                  Error = ''Failed to get commit status: '' @ err\<rparr>"])
        using b st Inl \<open>res = Inr branch\<close> by (simp add: h json_reply_sel)
    next
      case (Inr status)
      note h = statusHandler_success [OF assms(1) assms(2) ne(1) assms(3) ne(2)
          b [unfolded \<open>res = Inr branch\<close>] st [unfolded Inr]]
      show ?thesis
        apply (rule exI [of _ "\<lparr>Owner = owner, Repository = repo, Branch = branch,
                  BuildStatusResponse.State = StatusResponse.State status,
                  Symbol = mapStateToSymbol (StatusResponse.State status), Error = []\<rparr>"])
        using b st Inr \<open>res = Inr branch\<close> ne
        by (simp add: h json_reply_sel mapStateToSymbol_not_empty)
    qed
  qed
qed

theorem C8_body_shapes_witness:
  "\<exists>v. Written (fst (statusHandler test_stdlib
      (test_service (Inr (createHTTPResponse 200 main_repo_json)) (Inr (createHTTPResponse 404 [])))
      NewRecorder (test_request ''GET'' [(''owner'', [''testowner'']), (''repo'', [''testrepo''])])
      test_world)) = [Json (json_BuildStatusResponse v)]
     \<and> (Error v = [] \<or> BuildStatusResponse.State v = [] \<and> Symbol v = [])"
proof -
  let ?g = "test_service (Inr (createHTTPResponse 200 main_repo_json)) (Inr (createHTTPResponse 404 []))"
  let ?r = "test_request ''GET'' [(''owner'', [''testowner'']), (''repo'', [''testrepo''])]"
  have m: "Method ?r = ''GET''" by (simp add: test_request_sel)
  have o: "Values_Get (Query (URL ?r)) ''owner'' = ''testowner''" by (simp add: test_request_sel)
  have p: "Values_Get (Query (URL ?r)) ''repo'' = ''testrepo''" by (simp add: test_request_sel)
  from C8_body_shapes [where L = test_stdlib and g = ?g and s = test_world, OF m o p]
  show ?thesis
    by blast
qed

text \<open>
  C9: \<open>healthHandler\<close> never reads the request: for every request, whatever its
  method, the reply has the code 200 (written by the first \<open>Write\<close>), the content type
  \<open>application/json\<close> and the document with the one field \<open>status\<close> set to \<open>ok\<close>.
\<close>

theorem C9_health_any_method:
  "Code (fst (healthHandler NewRecorder r s)) = 200
   \<and> Written (fst (healthHandler NewRecorder r s)) = [Json (JObject [(''status'', JString ''ok'')])]
   \<and> Header_Get (HeaderMap (fst (healthHandler NewRecorder r s))) ''Content-Type'' = ''application/json''
   \<and> snd (healthHandler NewRecorder r s) = s"
  by (simp add: healthHandler_def Encode_def Write_def WriteHeader_def NewRecorder_def
      Header_Set_def Header_Get_def)

text \<open>
  C10: when the repository request is answered with 200 and the body decodes to a
  repository whose default branch is empty, \<open>GetDefaultBranch\<close> returns the empty
  string without error, and the handler goes on to call \<open>GetCommitStatus\<close> with the
  empty branch: the document it writes has an empty branch and either no error or the
  error of the status lookup.
\<close>

theorem C10_empty_default_branch:
  assumes "Method r = ''GET''"
    and "Values_Get (Query (URL r)) ''owner'' = owner" and "owner \<noteq> []"
    and "Values_Get (Query (URL r)) ''repo'' = repo" and "repo \<noteq> []"
    and "url_Parse L (BaseURL g @ ''/api/v1/repos/'' @ owner @ ''/'' @ repo) = Inr u"
    and "HTTPClient g \<lparr>Method = ''GET'', URL = u,
           Header = Header_Set Map.empty ''Authorization'' (''token '' @ Token g)\<rparr> (client s)
         = (Inr resp, c)"
    and "StatusCode resp = 200"
    and "decode_Repository L (Body resp) = Inr repository"
    and "DefaultBranch repository = []"
  shows "fst (GetDefaultBranch L g owner repo s) = Inr []
       \<and> calls (snd (statusHandler L g NewRecorder r s)) =
           calls s @ [GetDefaultBranchCall owner repo, GetCommitStatusCall owner repo []]
       \<and> (\<exists>v. Written (fst (statusHandler L g NewRecorder r s)) = [Json (json_BuildStatusResponse v)]
              \<and> Branch v = []
              \<and> (Error v = [] \<or> prefix ''Failed to get commit status: '' (Error v)))"
proof -
  let ?s1 = "close_Body resp (s\<lparr>calls := calls s @ [GetDefaultBranchCall owner repo], client := c\<rparr>)"
  have b: "GetDefaultBranch L g owner repo s = (Inr [], ?s1)"
    using GetDefaultBranch_decoded [OF assms(6) assms(7) assms(8) assms(9)] assms(10) by simp
  have c1: "calls ?s1 = calls s @ [GetDefaultBranchCall owner repo]"
    using GetDefaultBranch_calls [of L g owner repo s] b by simp
  obtain res2 s2 where st: "GetCommitStatus L g owner repo [] ?s1 = (res2, s2)"
    by (cases "GetCommitStatus L g owner repo [] ?s1")
  have c2: "calls s2 = calls s @ [GetDefaultBranchCall owner repo, GetCommitStatusCall owner repo []]"
    using GetCommitStatus_calls [of L g owner repo "[]" ?s1] st c1 by simp
  show ?thesis
  proof (cases res2)
    case (Inl err)
    note h = statusHandler_status_error [OF assms(1) assms(2) assms(3) assms(4) assms(5) b
        st [unfolded Inl]]
    have "\<exists>v. [Json (json_BuildStatusResponse
                  \<lparr>Owner = owner, Repository = repo, Branch = [], BuildStatusResponse.State = [],
                   Symbol = [], Error = ''Failed to get commit status: '' @ err\<rparr>)]
                = [Json (json_BuildStatusResponse v)]
              \<and> Branch v = []
              \<and> (Error v = [] \<or> prefix ''Failed to get commit status: '' (Error v))"
      by (rule exI [of _ "\<lparr>Owner = owner, Repository = repo, Branch = [],
            BuildStatusResponse.State = [], Symbol = [],
            Error = ''Failed to get commit status: '' @ err\<rparr>"]) simp
    then show ?thesis
      by (simp add: h b c2 json_reply_sel)
  next
    case (Inr status)
    note h = statusHandler_success [OF assms(1) assms(2) assms(3) assms(4) assms(5) b
        st [unfolded Inr]]
    have "\<exists>v. [Json (json_BuildStatusResponse
                  \<lparr>Owner = owner, Repository = repo, Branch = [],
                   BuildStatusResponse.State = StatusResponse.State status,
                   Symbol = mapStateToSymbol (StatusResponse.State status), Error = []\<rparr>)]
                = [Json (json_BuildStatusResponse v)]
              \<and> Branch v = []
              \<and> (Error v = [] \<or> prefix ''Failed to get commit status: '' (Error v))"
      by (rule exI [of _ "\<lparr>Owner = owner, Repository = repo, Branch = [],
            BuildStatusResponse.State = StatusResponse.State status,
            Symbol = mapStateToSymbol (StatusResponse.State status), Error = []\<rparr>"]) simp
    then show ?thesis
      by (simp add: h b c2 json_reply_sel)
  qed
qed

theorem C10_empty_default_branch_witness:
  "fst (GetDefaultBranch test_stdlib
      (test_service (Inr (createHTTPResponse 200 ''{}'')) (Inr (createHTTPResponse 404 [])))
      ''testowner'' ''testrepo'' test_world) = Inr []
   \<and> calls (snd (statusHandler test_stdlib
      (test_service (Inr (createHTTPResponse 200 ''{}'')) (Inr (createHTTPResponse 404 [])))
      NewRecorder (test_request ''GET'' [(''owner'', [''testowner'']), (''repo'', [''testrepo''])])
      test_world)) =
       [GetDefaultBranchCall ''testowner'' ''testrepo'', GetCommitStatusCall ''testowner'' ''testrepo'' []]"
proof -
  let ?g = "test_service (Inr (createHTTPResponse 200 ''{}'')) (Inr (createHTTPResponse 404 []))"
  let ?r = "test_request ''GET'' [(''owner'', [''testowner'']), (''repo'', [''testrepo''])]"
  have m: "Method ?r = ''GET''" by (simp add: test_request_sel)
  have o: "Values_Get (Query (URL ?r)) ''owner'' = ''testowner''" by (simp add: test_request_sel)
  have p: "Values_Get (Query (URL ?r)) ''repo'' = ''testrepo''" by (simp add: test_request_sel)
  have one: "''testowner'' \<noteq> []" by simp
  have pne: "''testrepo'' \<noteq> []" by simp
  have u: "url_Parse test_stdlib (BaseURL ?g @ ''/api/v1/repos/'' @ ''testowner'' @ ''/'' @ ''testrepo'')
           = Inr \<lparr>String = BaseURL ?g @ ''/api/v1/repos/'' @ ''testowner'' @ ''/'' @ ''testrepo'',
                  Query = Map.empty\<rparr>"
    by (rule test_url_Parse) (simp add: test_service_sel)
  have d: "HTTPClient ?g \<lparr>Method = ''GET'',
             URL = \<lparr>String = BaseURL ?g @ ''/api/v1/repos/'' @ ''testowner'' @ ''/'' @ ''testrepo'',
                    Query = Map.empty\<rparr>,
             Header = Header_Set Map.empty ''Authorization'' (''token '' @ Token ?g)\<rparr>
             (client test_world)
           = (Inr (createHTTPResponse 200 ''{}''), 1)"
    by (rule test_first_call)
  have c: "StatusCode (createHTTPResponse 200 ''{}'') = 200"
    by (simp add: createHTTPResponse_def)
  have e: "DefaultBranch \<lparr>DefaultBranch = []\<rparr> = []"
    by simp
  from C10_empty_default_branch [OF m o one p pne u d c test_decode_empty e]
  show ?thesis
    by (simp add: test_world_def)
qed

end
